theory Spec2Isabelle
  imports Complex_Main
begin

section \<open>The equation game of \<^verbatim>\<open>src/App.jsx\<close>\<close>

text \<open>
  The file \<^verbatim>\<open>App.jsx\<close> holds two versions of the component. The embedding follows the
  first, typed one (lines 1 to 681), all line numbers below are its own. The second one
  (lines 682 to 977) has the same generator, status effect and drag handler; its
  \<^verbatim>\<open>handleMergeSubmit\<close> has no branch for a text that is not a number, its
  \<^verbatim>\<open>handleDivisionSubmit\<close> has one message for every rejection, and its dialogs have
  no Cancel button.

  JavaScript numbers are modelled exactly: a coefficient, a score and
  the draws' floors are integers (\<^typ>\<open>int\<close>), the difficulty, the value returned by
  \<^verbatim>\<open>Math.random()\<close> and the quotient of the division dialog are rationals
  (\<^typ>\<open>rat\<close>). Rounding of binary floating point is outside the model; \<^verbatim>\<open>-0\<close> and
  \<^verbatim>\<open>0\<close> are one value, as they are for \<^verbatim>\<open>===\<close>.
\<close>

subsection \<open>Types (lines 7 to 25)\<close>

datatype Side = lhs | rhs

text \<open>The field \<^verbatim>\<open>id\<close> of the source is \<open>termId\<close> here.\<close>

record Term =
  termId :: string
  coefficient :: int
  hasVariable :: bool
  side :: Side

text \<open>The element type of \<^verbatim>\<open>rawTerms\<close> (line 103); its \<^verbatim>\<open>side\<close> is \<open>rawSide\<close>.\<close>

record RawTerm =
  coeff :: int
  hasVar :: bool
  rawSide :: Side

subsection \<open>The level generator (lines 70 to 142)\<close>

text \<open>
  Every call of \<^verbatim>\<open>Math.random()\<close> and of \<^verbatim>\<open>generateId()\<close> is an input of the
  model: \<open>rndCoeff\<close> is the draw of line 79, \<open>rndAnswer\<close> of line 84, \<open>rndA\<close> of line
  94, \<open>rndC1\<close> of line 100, \<open>rndSplit i\<close> the draw of line 115 for the raw term at
  index \<open>i\<close>, and \<open>newIds k\<close> the identifier given to the \<open>k\<close>-th term pushed at
  line 132.
\<close>

record Draws =
  rndCoeff :: rat
  rndAnswer :: rat
  rndA :: rat
  rndC1 :: rat
  rndSplit :: "nat \<Rightarrow> rat"
  newIds :: "nat \<Rightarrow> string"



text \<open>\<^verbatim>\<open>const scale = (val) => Math.round(val * difficulty)\<close>; \<^verbatim>\<open>Math.round\<close> rounds a
  half upwards.\<close>

definition scale :: "rat \<Rightarrow> rat \<Rightarrow> int" where
  "scale difficulty val = \<lfloor>val * difficulty + 1 / 2\<rfloor>"

text \<open>\<^verbatim>\<open>Math.floor(Math.random() * n)\<close> for an integer \<open>n\<close>.\<close>

definition randomBelow :: "rat \<Rightarrow> int \<Rightarrow> int" where
  "randomBelow r n = \<lfloor>r * of_int n\<rfloor>"

definition options :: "int list" where
  "options = [2, 3, 4, 5, - 2, - 3, - 4, - 5]"

definition finalCoeff :: "rat \<Rightarrow> Draws \<Rightarrow> int" where
  "finalCoeff difficulty dr =
     (if difficulty > 12 / 10
      then options ! nat (randomBelow (rndCoeff dr) (int (length options)))
      else 1)"

definition answer :: "rat \<Rightarrow> Draws \<Rightarrow> int" where
  "answer difficulty dr =
     (let rangeX = scale difficulty 5
      in randomBelow (rndAnswer dr) (rangeX * 2 + 1) - rangeX)"

definition coeffA :: "rat \<Rightarrow> Draws \<Rightarrow> int" where
  "coeffA difficulty dr =
     (let minA = 2;
          maxA = max (minA + 2) (scale difficulty 6)
      in randomBelow (rndA dr) (maxA - minA + 1) + minA)"

definition coeffB :: "rat \<Rightarrow> Draws \<Rightarrow> int" where
  "coeffB difficulty dr = coeffA difficulty dr - finalCoeff difficulty dr"

definition constC1 :: "rat \<Rightarrow> Draws \<Rightarrow> int" where
  "constC1 difficulty dr =
     (let rangeC = scale difficulty 10
      in randomBelow (rndC1 dr) (rangeC * 2 + 1) - rangeC)"

definition constC2 :: "rat \<Rightarrow> Draws \<Rightarrow> int" where
  "constC2 difficulty dr =
     (let targetConstantDiff = finalCoeff difficulty dr * answer difficulty dr
      in constC1 difficulty dr + targetConstantDiff)"

definition rawTerms :: "rat \<Rightarrow> Draws \<Rightarrow> RawTerm list" where
  "rawTerms difficulty dr =
     [\<lparr>coeff = coeffA difficulty dr, hasVar = True, rawSide = lhs\<rparr>,
      \<lparr>coeff = coeffB difficulty dr, hasVar = True, rawSide = rhs\<rparr>,
      \<lparr>coeff = constC1 difficulty dr, hasVar = False, rawSide = lhs\<rparr>,
      \<lparr>coeff = constC2 difficulty dr, hasVar = False, rawSide = rhs\<rparr>]"

text \<open>The \<^verbatim>\<open>forEach\<close> of lines 114 to 124; \<open>i\<close> is the index of the head of the list.\<close>

fun splitTerms :: "(nat \<Rightarrow> rat) \<Rightarrow> nat \<Rightarrow> RawTerm list \<Rightarrow> RawTerm list" where
  "splitTerms rnd i [] = []"
| "splitTerms rnd i (t # ts) =
     (if rnd i > 1 / 2 \<or> coeff t = 0 then [t]
      else (let splitPart = coeff t div 2;
                remainder = coeff t - splitPart
            in [\<lparr>coeff = splitPart, hasVar = hasVar t, rawSide = rawSide t\<rparr>,
                \<lparr>coeff = remainder, hasVar = hasVar t, rawSide = rawSide t\<rparr>]))
     @ splitTerms rnd (Suc i) ts"

text \<open>The \<^verbatim>\<open>forEach\<close> of lines 130 to 139; \<open>k\<close> counts the terms pushed so far.\<close>

fun toTerms :: "(nat \<Rightarrow> string) \<Rightarrow> nat \<Rightarrow> RawTerm list \<Rightarrow> Term list" where
  "toTerms gid k [] = []"
| "toTerms gid k (t # ts) =
     (if coeff t \<noteq> 0
      then \<lparr>termId = gid k, coefficient = coeff t, hasVariable = hasVar t, side = rawSide t\<rparr>
           # toTerms gid (Suc k) ts
      else toTerms gid k ts)"

definition generateLevel :: "rat \<Rightarrow> Draws \<Rightarrow> Term list" where
  "generateLevel difficulty dr =
     (let raw = rawTerms difficulty dr;
          raw' = (if difficulty > 14 / 10 then splitTerms (rndSplit dr) 0 raw else raw)
      in toTerms (newIds dr) 0 raw')"

subsection \<open>Evaluating an equation\<close>

text \<open>The value of a term at \<open>x\<close>, the sum of one side, and the balance of the two.\<close>

definition termValue :: "int \<Rightarrow> Term \<Rightarrow> int" where
  "termValue x t = (if hasVariable t then coefficient t * x else coefficient t)"

definition sideSum :: "int \<Rightarrow> Side \<Rightarrow> Term list \<Rightarrow> int" where
  "sideSum x s ts = sum_list (map (termValue x) (filter (\<lambda>t. side t = s) ts))"

definition balancedAt :: "int \<Rightarrow> Term list \<Rightarrow> bool" where
  "balancedAt x ts \<longleftrightarrow> sideSum x lhs ts - sideSum x rhs ts = 0"

definition zeroFree :: "Term list \<Rightarrow> bool" where
  "zeroFree ts \<longleftrightarrow> list_all (\<lambda>t. coefficient t \<noteq> 0) ts"

subsection \<open>Reading a number from a text field\<close>

text \<open>
  \<^verbatim>\<open>parseInt(string, 10)\<close> of ECMAScript: leading white space is skipped, one sign is
  read, then the longest run of decimal digits; the rest of the string is ignored, and
  the result is \<^verbatim>\<open>NaN\<close> (\<open>None\<close>) when there is no digit. A \<^typ>\<open>char\<close> stands for
  a code unit below 256.
\<close>

definition isWhiteSpace :: "char \<Rightarrow> bool" where
  "isWhiteSpace c \<longleftrightarrow> (of_char c :: nat) \<in> set [9, 10, 11, 12, 13, 32, 160]"

definition isDigit :: "char \<Rightarrow> bool" where
  "isDigit c \<longleftrightarrow> (48 :: nat) \<le> of_char c \<and> (of_char c :: nat) \<le> 57"

definition digitsValue :: "string \<Rightarrow> nat" where
  "digitsValue Z = foldl (\<lambda>acc c. acc * 10 + (of_char c - 48)) 0 Z"

definition parseInt :: "string \<Rightarrow> int option" where
  "parseInt inputString =
     (let S = dropWhile isWhiteSpace inputString;
          (sign, S') = (case S of
                          [] \<Rightarrow> (1, [])
                        | c # cs \<Rightarrow> if c = CHR ''-'' then (- 1, cs)
                                    else if c = CHR ''+'' then (1, cs)
                                    else (1, S));
          Z = takeWhile isDigit S'
      in if Z = [] then None else Some (sign * int (digitsValue Z)))"

subsection \<open>The state of the component (lines 147 to 185)\<close>

record ModalState =
  isOpen :: bool
  termA :: "Term option"
  termB :: "Term option"
  inputValue :: string
  error :: "string option"

text \<open>The value of \<^verbatim>\<open>canDivide\<close> when it is not \<^verbatim>\<open>null\<close>.\<close>

record DivisionInfo =
  divisor :: int
  dividend :: int

text \<open>The state \<^verbatim>\<open>divisionModal\<close>; its fields \<^verbatim>\<open>isOpen\<close>, \<^verbatim>\<open>divisor\<close>, \<^verbatim>\<open>dividend\<close> and
  \<^verbatim>\<open>error\<close> carry the prefix \<open>div\<close> here.\<close>

record DivisionModal =
  divIsOpen :: bool
  divDivisor :: int
  divDividend :: int
  divisorInput :: string
  resultInput :: string
  divError :: "string option"

record AppState =
  terms :: "Term list"
  gameWon :: bool
  score :: int
  solvedCount :: nat
  modal :: ModalState
  divisionModal :: DivisionModal
  canDivide :: "DivisionInfo option"

definition closedModal :: ModalState where
  "closedModal = \<lparr>isOpen = False, termA = None, termB = None, inputValue = '''', error = None\<rparr>"

definition closedDivisionModal :: DivisionModal where
  "closedDivisionModal =
     \<lparr>divIsOpen = False, divDivisor = 1, divDividend = 0, divisorInput = '''',
      resultInput = '''', divError = None\<rparr>"

text \<open>The values given to \<^verbatim>\<open>useState\<close>.\<close>

definition initialState :: AppState where
  "initialState =
     \<lparr>terms = [], gameWon = False, score = 0, solvedCount = 0, modal = closedModal,
      divisionModal = closedDivisionModal, canDivide = None\<rparr>"

text \<open>Line 153.\<close>

definition difficulty :: "AppState \<Rightarrow> rat" where
  "difficulty st = 1 + of_nat (solvedCount st div 3) * (2 / 10)"

text \<open>The effect of lines 180 to 182.\<close>

definition initGame :: "Draws \<Rightarrow> AppState \<Rightarrow> AppState" where
  "initGame dr st = st\<lparr>terms := generateLevel 1 dr\<rparr>"

subsection \<open>Status derivation (the effect of lines 187 to 222)\<close>

definition statusEffect :: "AppState \<Rightarrow> AppState" where
  "statusEffect st =
     (if gameWon st then st\<lparr>canDivide := None\<rparr>
      else if length (terms st) = 2 then
        (let l = filter (\<lambda>t. side t = lhs) (terms st);
             r = filter (\<lambda>t. side t = rhs) (terms st)
         in if length l = 1 \<and> length r = 1 then
              (let t1 = l ! 0;
                   t2 = r ! 0;
                   (varTerm, constTerm) =
                     (if hasVariable t1 \<and> \<not> hasVariable t2 then (Some t1, Some t2)
                      else if \<not> hasVariable t1 \<and> hasVariable t2 then (Some t2, Some t1)
                      else (None, None))
               in case (varTerm, constTerm) of
                    (Some v, Some c) \<Rightarrow>
                      if coefficient v = 1
                      then st\<lparr>gameWon := True, score := score st + 10,
                              solvedCount := solvedCount st + 1, canDivide := None\<rparr>
                      else st\<lparr>canDivide :=
                                Some \<lparr>divisor = coefficient v, dividend = coefficient c\<rparr>\<rparr>
                  | _ \<Rightarrow> st)
            else st)
      else st\<lparr>canDivide := None\<rparr>)"

subsection \<open>New game and the division dialog (lines 224 to 263)\<close>

definition startNewGame :: "Draws \<Rightarrow> AppState \<Rightarrow> AppState" where
  "startNewGame dr st =
     st\<lparr>gameWon := False, canDivide := None, terms := generateLevel (difficulty st) dr\<rparr>"

definition handleDivisionClick :: "AppState \<Rightarrow> AppState" where
  "handleDivisionClick st =
     (case canDivide st of
        None \<Rightarrow> st
      | Some cd \<Rightarrow>
          st\<lparr>divisionModal :=
               \<lparr>divIsOpen = True, divDivisor = divisor cd, divDividend = dividend cd,
                divisorInput = '''', resultInput = '''', divError = None\<rparr>\<rparr>)"

text \<open>
  \<^verbatim>\<open>dividend / divisor\<close> of line 247. With a divisor 0 JavaScript yields
  \<^verbatim>\<open>Infinity\<close>, \<^verbatim>\<open>-Infinity\<close> or \<^verbatim>\<open>NaN\<close>, which is \<open>None\<close> here.
\<close>

definition jsDivide :: "int \<Rightarrow> int \<Rightarrow> rat option" where
  "jsDivide m k = (if k = 0 then None else Some (of_int m / of_int k))"

text \<open>\<^verbatim>\<open>a === b\<close> for a result \<open>a\<close> of \<^verbatim>\<open>parseInt\<close> and an integer \<open>b\<close>: \<^verbatim>\<open>NaN\<close> equals
  nothing.\<close>

definition strictEqInt :: "int option \<Rightarrow> int \<Rightarrow> bool" where
  "strictEqInt a b = (case a of None \<Rightarrow> False | Some n \<Rightarrow> n = b)"

text \<open>\<^verbatim>\<open>a === b\<close> for a result \<open>a\<close> of \<^verbatim>\<open>parseInt\<close> and a quotient \<open>b\<close>: \<^verbatim>\<open>NaN\<close> and
  the infinities equal no result of \<^verbatim>\<open>parseInt\<close>.\<close>

definition strictEqQuot :: "int option \<Rightarrow> rat option \<Rightarrow> bool" where
  "strictEqQuot a b =
     (case a of None \<Rightarrow> False
      | Some n \<Rightarrow> (case b of None \<Rightarrow> False | Some q \<Rightarrow> of_int n = q))"

text \<open>Lines 251 to 254, for a number \<open>userResult\<close>.\<close>

definition applyDivision :: "int \<Rightarrow> Term list \<Rightarrow> Term list" where
  "applyDivision userResult prev =
     map (\<lambda>t. t\<lparr>coefficient := (if hasVariable t then 1 else userResult)\<rparr>) prev"

text \<open>
  Lines 242 to 263. In the accepting branch \<open>userResult\<close> is a number, since
  \<^verbatim>\<open>NaN\<close> is not \<^verbatim>\<open>===\<close> to \<open>expectedResult\<close>; the case \<open>None\<close> there is never taken.
\<close>

definition handleDivisionSubmit :: "AppState \<Rightarrow> AppState" where
  "handleDivisionSubmit st =
     (let dm = divisionModal st;
          userDivisor = parseInt (divisorInput dm);
          userResult = parseInt (resultInput dm);
          expectedResult = jsDivide (divDividend dm) (divDivisor dm)
      in if strictEqInt userDivisor (divDivisor dm) \<and> strictEqQuot userResult expectedResult
         then (case userResult of
                 Some r \<Rightarrow> st\<lparr>terms := applyDivision r (terms st),
                               divisionModal := closedDivisionModal\<rparr>
               | None \<Rightarrow> st)
         else (let errorMsg =
                     ''Incorrect. '' @
                     (if \<not> strictEqInt userDivisor (divDivisor dm) then ''Check the divisor. ''
                      else if \<not> strictEqQuot userResult expectedResult then ''Check the math. ''
                      else '''')
               in st\<lparr>score := score st - 2,
                     divisionModal := dm\<lparr>divError := Some (errorMsg @ ''(-2 pts)'')\<rparr>\<rparr>))"

text \<open>The handlers of the two text fields and of Cancel (lines 499, 512 and 525).\<close>

definition setDivisorInput :: "string \<Rightarrow> AppState \<Rightarrow> AppState" where
  "setDivisorInput v st =
     st\<lparr>divisionModal := (divisionModal st)\<lparr>divisorInput := v, divError := None\<rparr>\<rparr>"

definition setResultInput :: "string \<Rightarrow> AppState \<Rightarrow> AppState" where
  "setResultInput v st =
     st\<lparr>divisionModal := (divisionModal st)\<lparr>resultInput := v, divError := None\<rparr>\<rparr>"

definition cancelDivision :: "AppState \<Rightarrow> AppState" where
  "cancelDivision st = st\<lparr>divisionModal := closedDivisionModal\<rparr>"

subsection \<open>Dragging and merging (lines 288 to 381)\<close>

text \<open>
  \<open>newSide\<close> is the side of the point where the card was dropped (line 295) and
  \<open>overlaps t\<close> the geometric test of lines 304 to 313 for the card of \<open>t\<close>; both come
  from the layout and are inputs of the model.
\<close>

definition crossTerm :: "Term \<Rightarrow> Side \<Rightarrow> Term list \<Rightarrow> Term list" where
  "crossTerm term newSide prev =
     map (\<lambda>t. if termId t = termId term
               then t\<lparr>side := newSide, coefficient := coefficient t * - 1\<rparr>
               else t) prev"

text \<open>The \<^verbatim>\<open>terms.find\<close> of lines 299 to 314.\<close>

definition overlappingTerm :: "(Term \<Rightarrow> bool) \<Rightarrow> Side \<Rightarrow> Term \<Rightarrow> Term list \<Rightarrow> Term option" where
  "overlappingTerm overlaps newSide term ts =
     find (\<lambda>t. \<not> (termId t = termId term) \<and> \<not> (side t \<noteq> newSide) \<and>
               \<not> (hasVariable t \<noteq> hasVariable term) \<and> overlaps t) ts"

definition handleDragEnd :: "(Term \<Rightarrow> bool) \<Rightarrow> Side \<Rightarrow> Term \<Rightarrow> AppState \<Rightarrow> AppState" where
  "handleDragEnd overlaps newSide term st =
     (if gameWon st then st
      else
        (let didCross = (newSide \<noteq> side term)
         in case overlappingTerm overlaps newSide term (terms st) of
              Some b \<Rightarrow>
                (let effectiveCoefficient =
                       (if didCross then - 1 * coefficient term else coefficient term)
                 in st\<lparr>modal :=
                        \<lparr>isOpen = True,
                         termA = Some (term\<lparr>coefficient := effectiveCoefficient, side := newSide\<rparr>),
                         termB = Some b, inputValue = '''', error = None\<rparr>\<rparr>)
            | None \<Rightarrow>
                if didCross then st\<lparr>terms := crossTerm term newSide (terms st)\<rparr> else st))"

text \<open>Lines 347 to 381; \<open>newId\<close> is the result of \<^verbatim>\<open>generateId()\<close>.\<close>

definition handleMergeSubmit :: "string \<Rightarrow> AppState \<Rightarrow> AppState" where
  "handleMergeSubmit newId st =
     (case termA (modal st) of
        None \<Rightarrow> st
      | Some a \<Rightarrow>
         (case termB (modal st) of
            None \<Rightarrow> st
          | Some b \<Rightarrow>
             (let sum = coefficient a + coefficient b;
                  userSum = parseInt (inputValue (modal st))
              in case userSum of
                   None \<Rightarrow>
                     st\<lparr>modal := (modal st)\<lparr>error := Some ''Please enter a valid number''\<rparr>\<rparr>
                 | Some u \<Rightarrow>
                     if u = sum then
                       (let isZero = (sum = 0);
                            newTerm = \<lparr>termId = newId, coefficient = sum,
                                       hasVariable = (if isZero then False else hasVariable a),
                                       side = side b\<rparr>
                        in st\<lparr>terms :=
                                filter (\<lambda>t. termId t \<noteq> termId a \<and> termId t \<noteq> termId b) (terms st)
                                @ [newTerm],
                              modal := closedModal\<rparr>)
                     else
                       st\<lparr>score := score st - 2,
                          modal := (modal st)\<lparr>error := Some ''Incorrect sum. -2 Points!''\<rparr>\<rparr>)))"

text \<open>The callback of \<^verbatim>\<open>setTimeout\<close> (lines 376 to 379): the dialog closes and \<open>terms\<close>
  is replaced by a copy of itself.\<close>

definition mergeTimeout :: "AppState \<Rightarrow> AppState" where
  "mergeTimeout st = st\<lparr>modal := closedModal, terms := terms st\<rparr>"

text \<open>The handlers of the text field and of Cancel in the merge dialog (lines 572 and 583).\<close>

definition setMergeInput :: "string \<Rightarrow> AppState \<Rightarrow> AppState" where
  "setMergeInput v st = st\<lparr>modal := (modal st)\<lparr>inputValue := v, error := None\<rparr>\<rparr>"

definition cancelMerge :: "AppState \<Rightarrow> AppState" where
  "cancelMerge st = st\<lparr>modal := closedModal\<rparr>"

subsection \<open>Auxiliary notions\<close>

text \<open>The value of a raw term and the sum of one side of a raw term list.\<close>

definition rawValue :: "int \<Rightarrow> RawTerm \<Rightarrow> int" where
  "rawValue x t = (if hasVar t then coeff t * x else coeff t)"

definition rawSum :: "int \<Rightarrow> Side \<Rightarrow> RawTerm list \<Rightarrow> int" where
  "rawSum x s ts = sum_list (map (rawValue x) (filter (\<lambda>t. rawSide t = s) ts))"

text \<open>
  A submission is accepted when the handler takes its committing branch. With a merge
  pending (\<open>termA\<close> and \<open>termB\<close> set), that branch and no other leaves the dialog in its
  closed value; a rejection keeps the dialog and stores an error message in it.
\<close>

definition mergeAccepted :: "string \<Rightarrow> AppState \<Rightarrow> bool" where
  "mergeAccepted newId st \<longleftrightarrow> modal (handleMergeSubmit newId st) = closedModal"

definition divisionAccepted :: "AppState \<Rightarrow> bool" where
  "divisionAccepted st \<longleftrightarrow> divisionModal (handleDivisionSubmit st) = closedDivisionModal"

text \<open>The player presses Divide and types the two numbers; then presses Solve.\<close>

definition typedDivision :: "string \<Rightarrow> string \<Rightarrow> AppState \<Rightarrow> AppState" where
  "typedDivision divisorText resultText st =
     setResultInput resultText (setDivisorInput divisorText (handleDivisionClick st))"

definition submitDivision :: "string \<Rightarrow> string \<Rightarrow> AppState \<Rightarrow> AppState" where
  "submitDivision divisorText resultText st =
     handleDivisionSubmit (typedDivision divisorText resultText st)"

text \<open>The player types a sum into the open merge dialog and presses Merge.\<close>

definition submitMerge :: "string \<Rightarrow> string \<Rightarrow> AppState \<Rightarrow> AppState" where
  "submitMerge newId sumText st = handleMergeSubmit newId (setMergeInput sumText st)"

text \<open>
  The shape of the specification's status rule: exactly two terms, one on each side,
  \<open>v\<close> a variable term and \<open>c\<close> a constant.
\<close>

definition readyShape :: "Term list \<Rightarrow> Term \<Rightarrow> Term \<Rightarrow> bool" where
  "readyShape ts v c \<longleftrightarrow>
     (ts = [v, c] \<or> ts = [c, v]) \<and> side v \<noteq> side c \<and> hasVariable v \<and> \<not> hasVariable c"

subsection \<open>Example games\<close>

definition exampleIds :: "nat \<Rightarrow> string" where
  "exampleIds k =
     (if k < 8 then [''t0'', ''t1'', ''t2'', ''t3'', ''t4'', ''t5'', ''t6'', ''t7''] ! k
      else ''t8'')"

text \<open>At difficulty 1 these draws give \<open>2x + 4 = x + 7\<close>, with the answer 3.\<close>

definition drawsA :: Draws where
  "drawsA = \<lparr>rndCoeff = 0, rndAnswer = 3 / 4, rndA = 0, rndC1 = 2 / 3,
             rndSplit = (\<lambda>i. 3 / 4), newIds = exampleIds\<rparr>"

text \<open>At difficulty 1 these draws give \<open>2x + 4 = x + 4\<close>, with the answer 0.\<close>

definition drawsB :: Draws where
  "drawsB = \<lparr>rndCoeff = 0, rndAnswer = 1 / 2, rndA = 0, rndC1 = 2 / 3,
             rndSplit = (\<lambda>i. 3 / 4), newIds = exampleIds\<rparr>"


definition t0 :: Term where
  "t0 = \<lparr>termId = ''t0'', coefficient = 2, hasVariable = True, side = lhs\<rparr>"

definition t1 :: Term where
  "t1 = \<lparr>termId = ''t1'', coefficient = 1, hasVariable = True, side = rhs\<rparr>"

definition t2 :: Term where
  "t2 = \<lparr>termId = ''t2'', coefficient = 4, hasVariable = False, side = lhs\<rparr>"

definition t3 :: Term where
  "t3 = \<lparr>termId = ''t3'', coefficient = 7, hasVariable = False, side = rhs\<rparr>"

definition t3' :: Term where
  "t3' = \<lparr>termId = ''t3'', coefficient = 4, hasVariable = False, side = rhs\<rparr>"

definition m0 :: Term where
  "m0 = \<lparr>termId = ''m0'', coefficient = - 1, hasVariable = True, side = rhs\<rparr>"

definition m1 :: Term where
  "m1 = \<lparr>termId = ''m1'', coefficient = - 3, hasVariable = False, side = lhs\<rparr>"

text \<open>The copy of \<open>t0\<close> that the merge dialog holds after \<open>t0\<close> was dropped on the right
  side, \<open>m1\<close> after it crossed to the right side, \<open>m0\<close> after the division, and the copy
  of \<open>t3'\<close> that the merge dialog holds after \<open>t3'\<close> was dropped on the left side.\<close>

definition t0Crossed :: Term where
  "t0Crossed = \<lparr>termId = ''t0'', coefficient = - 2, hasVariable = True, side = rhs\<rparr>"

definition m1Crossed :: Term where
  "m1Crossed = \<lparr>termId = ''m1'', coefficient = 3, hasVariable = False, side = rhs\<rparr>"

definition m0Divided :: Term where
  "m0Divided = \<lparr>termId = ''m0'', coefficient = 1, hasVariable = True, side = rhs\<rparr>"

definition t3Crossed :: Term where
  "t3Crossed = \<lparr>termId = ''t3'', coefficient = - 4, hasVariable = False, side = lhs\<rparr>"

text \<open>
  A game played from the first render: the level \<open>2x + 4 = x + 7\<close> is generated; \<open>2x\<close>
  is dropped on \<open>x\<close> and merged into \<open>-x\<close>; \<open>7\<close> is dropped on \<open>4\<close> and merged into
  \<open>-3\<close>, which leaves \<open>-3 = -x\<close>; then \<open>-3\<close> is dragged to the right side, the Divide
  button is pressed and \<open>-1\<close> and \<open>3\<close> are submitted; at last \<open>3\<close> is dragged back to
  the left side. The status effect runs after every change of \<open>terms\<close>.
\<close>

definition game0 :: AppState where
  "game0 = statusEffect (initGame drawsA initialState)"

definition game1 :: AppState where
  "game1 = handleDragEnd (\<lambda>t. termId t = ''t1'') rhs t0 game0"

definition game2 :: AppState where
  "game2 = statusEffect (submitMerge ''m0'' ''-1'' game1)"

definition game3 :: AppState where
  "game3 = handleDragEnd (\<lambda>t. termId t = ''t2'') lhs t3 game2"

definition game4 :: AppState where
  "game4 = statusEffect (submitMerge ''m1'' ''-3'' game3)"

definition game5 :: AppState where
  "game5 = statusEffect (handleDragEnd (\<lambda>t. False) rhs m1 game4)"

definition game6 :: AppState where
  "game6 = statusEffect (submitDivision ''-1'' ''3'' game5)"

definition game7 :: AppState where
  "game7 = statusEffect (handleDragEnd (\<lambda>t. False) lhs m1Crossed game6)"

text \<open>The state \<open>game1\<close> with the right sum typed, with a wrong sum typed, and the first
  of these with other live \<open>terms\<close> and \<open>canDivide\<close>.\<close>

definition game1Typed :: AppState where
  "game1Typed = setMergeInput ''-1'' game1"

definition game1Wrong :: AppState where
  "game1Wrong = setMergeInput ''3'' game1"

definition game1Stale :: AppState where
  "game1Stale = game1Typed\<lparr>terms := [], canDivide := Some \<lparr>divisor = 5, dividend = 5\<rparr>\<rparr>"

text \<open>
  A second game from the first render: the level \<open>2x + 4 = x + 4\<close> is generated, the
  right \<open>4\<close> is dropped on the left \<open>4\<close>, and \<open>0\<close> is typed into the merge dialog.
\<close>

definition zgame0 :: AppState where
  "zgame0 = statusEffect (initGame drawsB initialState)"

definition zgame1 :: AppState where
  "zgame1 = handleDragEnd (\<lambda>t. termId t = ''t2'') lhs t3' zgame0"

definition zgame1Typed :: AppState where
  "zgame1Typed = setMergeInput ''0'' zgame1"

section \<open>Properties of the level generator\<close>

lemma toTerms_sideSum: "sideSum x s (toTerms gid k raw) = rawSum x s raw"
  by (induction raw arbitrary: k)
     (simp_all add: sideSum_def rawSum_def termValue_def rawValue_def)

lemma splitTerms_rawSum: "rawSum x s (splitTerms rnd i raw) = rawSum x s raw"
  by (induction raw arbitrary: i)
     (simp_all add: rawSum_def rawValue_def Let_def algebra_simps flip: distrib_right)

lemma rawTerms_balanced:
  "rawSum (answer d dr) lhs (rawTerms d dr) - rawSum (answer d dr) rhs (rawTerms d dr) = 0"
  by (simp add: rawSum_def rawValue_def rawTerms_def coeffB_def constC2_def algebra_simps)


lemma toTerms_zeroFree: "zeroFree (toTerms gid k raw)"
  by (induction raw arbitrary: k) (simp_all add: zeroFree_def)

lemma generateLevel_zeroFree: "zeroFree (generateLevel d dr)"
  by (simp add: generateLevel_def Let_def toTerms_zeroFree)




text \<open>
  Claim C6. For every difficulty and every outcome of the draws, the terms returned by
  \<open>generateLevel\<close> are balanced at the chosen answer: the sum of the left side minus the
  sum of the right side, evaluated at \<open>x = answer\<close>, is 0. Splitting (lines 112 to 126)
  and the dropping of zero terms (line 131) are part of \<open>generateLevel\<close>.
\<close>

theorem generateLevel_balanced: "balancedAt (answer d dr) (generateLevel d dr)"
  using rawTerms_balanced [of d dr]
  by (simp add: balancedAt_def generateLevel_def Let_def toTerms_sideSum splitTerms_rawSum)




section \<open>Lemmas on the handlers\<close>

subsection \<open>Reading numbers\<close>

text \<open>\<open>parseInt\<close> reads the integer at the front of the text and ignores what follows
  it; a text without such an integer is \<^verbatim>\<open>NaN\<close>.\<close>

lemma parseInt_examples:
  "parseInt ''-12'' = Some (- 12)" "parseInt '' 7'' = Some 7" "parseInt ''4.7'' = Some 4"
  "parseInt '''' = None" "parseInt ''.5'' = None" "parseInt ''-'' = None"
  by code_simp+

subsection \<open>The merge dialog\<close>

lemma handleMergeSubmit_accept:
  assumes "termA (modal st) = Some a" "termB (modal st) = Some b"
    and "parseInt (inputValue (modal st)) = Some (coefficient a + coefficient b)"
  shows "handleMergeSubmit newId st =
         st\<lparr>terms := filter (\<lambda>t. termId t \<noteq> termId a \<and> termId t \<noteq> termId b) (terms st) @
                      [\<lparr>termId = newId, coefficient = coefficient a + coefficient b,
                        hasVariable = (if coefficient a + coefficient b = 0 then False
                                       else hasVariable a),
                        side = side b\<rparr>],
            modal := closedModal\<rparr>"
  using assms by (simp add: handleMergeSubmit_def Let_def)

lemma handleMergeSubmit_nan:
  assumes "termA (modal st) = Some a" "termB (modal st) = Some b"
    and "parseInt (inputValue (modal st)) = None"
  shows "handleMergeSubmit newId st =
         st\<lparr>modal := (modal st)\<lparr>error := Some ''Please enter a valid number''\<rparr>\<rparr>"
  using assms by (simp add: handleMergeSubmit_def Let_def)

lemma handleMergeSubmit_wrong:
  assumes "termA (modal st) = Some a" "termB (modal st) = Some b"
    and "parseInt (inputValue (modal st)) = Some u" "u \<noteq> coefficient a + coefficient b"
  shows "handleMergeSubmit newId st =
         st\<lparr>score := score st - 2,
            modal := (modal st)\<lparr>error := Some ''Incorrect sum. -2 Points!''\<rparr>\<rparr>"
  using assms by (simp add: handleMergeSubmit_def Let_def)

lemma error_not_closed: "m\<lparr>error := Some e\<rparr> \<noteq> closedModal"
proof
  assume "m\<lparr>error := Some e\<rparr> = closedModal"
  then have "error (m\<lparr>error := Some e\<rparr>) = error closedModal" by simp
  then show False by (simp add: closedModal_def)
qed

lemma mergeAccepted_iff:
  assumes "termA (modal st) = Some a" "termB (modal st) = Some b"
  shows "mergeAccepted newId st \<longleftrightarrow>
         parseInt (inputValue (modal st)) = Some (coefficient a + coefficient b)"
proof (cases "parseInt (inputValue (modal st))")
  case None
  with assms show ?thesis
    by (simp add: mergeAccepted_def handleMergeSubmit_nan [OF assms] error_not_closed)
next
  case (Some u)
  show ?thesis
  proof (cases "u = coefficient a + coefficient b")
    case True
    with Some assms show ?thesis
      by (simp add: mergeAccepted_def handleMergeSubmit_accept [OF assms])
  next
    case False
    with Some assms show ?thesis
      by (simp add: mergeAccepted_def handleMergeSubmit_wrong [OF assms Some] error_not_closed)
  qed
qed

subsection \<open>The division dialog\<close>

lemma handleDivisionSubmit_accept:
  assumes "parseInt (divisorInput (divisionModal st)) = Some (divDivisor (divisionModal st))"
    and "parseInt (resultInput (divisionModal st)) = Some r"
    and "divDivisor (divisionModal st) \<noteq> 0"
    and "(of_int r :: rat) =
         of_int (divDividend (divisionModal st)) / of_int (divDivisor (divisionModal st))"
  shows "handleDivisionSubmit st =
         st\<lparr>terms := applyDivision r (terms st), divisionModal := closedDivisionModal\<rparr>"
  using assms
  by (simp add: handleDivisionSubmit_def Let_def strictEqInt_def strictEqQuot_def jsDivide_def)

lemma handleDivisionSubmit_wrong_divisor:
  assumes "parseInt (divisorInput (divisionModal st)) \<noteq> Some (divDivisor (divisionModal st))"
  shows "handleDivisionSubmit st =
         st\<lparr>score := score st - 2,
            divisionModal := (divisionModal st)
              \<lparr>divError := Some ''Incorrect. Check the divisor. (-2 pts)''\<rparr>\<rparr>"
  using assms
  by (simp add: handleDivisionSubmit_def Let_def strictEqInt_def split: option.splits)

lemma handleDivisionSubmit_wrong_result:
  assumes "parseInt (divisorInput (divisionModal st)) = Some (divDivisor (divisionModal st))"
    and "\<not> strictEqQuot (parseInt (resultInput (divisionModal st)))
             (jsDivide (divDividend (divisionModal st)) (divDivisor (divisionModal st)))"
  shows "handleDivisionSubmit st =
         st\<lparr>score := score st - 2,
            divisionModal := (divisionModal st)
              \<lparr>divError := Some ''Incorrect. Check the math. (-2 pts)''\<rparr>\<rparr>"
  using assms
  by (simp add: handleDivisionSubmit_def Let_def strictEqInt_def)

lemma strictEqQuot_iff:
  "strictEqQuot u (jsDivide m k) \<longleftrightarrow>
   k \<noteq> 0 \<and> (\<exists>r. u = Some r \<and> (of_int r :: rat) = of_int m / of_int k)"
  by (cases u) (simp_all add: strictEqQuot_def jsDivide_def)

lemma divError_not_closed: "dm\<lparr>divError := Some e\<rparr> \<noteq> closedDivisionModal"
proof
  assume "dm\<lparr>divError := Some e\<rparr> = closedDivisionModal"
  then have "divError (dm\<lparr>divError := Some e\<rparr>) = divError closedDivisionModal" by simp
  then show False by (simp add: closedDivisionModal_def)
qed

lemma divisionAccepted_iff:
  "divisionAccepted st \<longleftrightarrow>
   parseInt (divisorInput (divisionModal st)) = Some (divDivisor (divisionModal st)) \<and>
   divDivisor (divisionModal st) \<noteq> 0 \<and>
   (\<exists>r. parseInt (resultInput (divisionModal st)) = Some r \<and>
        (of_int r :: rat) =
        of_int (divDividend (divisionModal st)) / of_int (divDivisor (divisionModal st)))"
  (is "?L \<longleftrightarrow> ?D \<and> ?R")
proof (cases ?D)
  case False
  then show ?thesis
    by (simp add: divisionAccepted_def handleDivisionSubmit_wrong_divisor divError_not_closed)
next
  case True
  show ?thesis
  proof (cases "strictEqQuot (parseInt (resultInput (divisionModal st)))
             (jsDivide (divDividend (divisionModal st)) (divDivisor (divisionModal st)))")
    case False
    with True show ?thesis
      using strictEqQuot_iff [of "parseInt (resultInput (divisionModal st))"
          "divDividend (divisionModal st)" "divDivisor (divisionModal st)"]
      by (simp add: divisionAccepted_def handleDivisionSubmit_wrong_result divError_not_closed)
  next
    case q: True
    then obtain r where r: "divDivisor (divisionModal st) \<noteq> 0"
        "parseInt (resultInput (divisionModal st)) = Some r"
        "(of_int r :: rat) =
         of_int (divDividend (divisionModal st)) / of_int (divDivisor (divisionModal st))"
      by (auto simp: strictEqQuot_iff)
    from handleDivisionSubmit_accept [OF True r(2) r(1) r(3)] True r show ?thesis
      by (auto simp: divisionAccepted_def)
  qed
qed

lemma handleDivisionSubmit_rejected:
  assumes "\<not> divisionAccepted st"
  shows "handleDivisionSubmit st =
         st\<lparr>score := score st - 2,
            divisionModal := (divisionModal st)
              \<lparr>divError := Some (if parseInt (divisorInput (divisionModal st)) =
                                    Some (divDivisor (divisionModal st))
                                 then ''Incorrect. Check the math. (-2 pts)''
                                 else ''Incorrect. Check the divisor. (-2 pts)'')\<rparr>\<rparr>"
proof (cases "parseInt (divisorInput (divisionModal st)) = Some (divDivisor (divisionModal st))")
  case False
  then show ?thesis by (simp add: handleDivisionSubmit_wrong_divisor)
next
  case True
  with assms have "\<not> strictEqQuot (parseInt (resultInput (divisionModal st)))
             (jsDivide (divDividend (divisionModal st)) (divDivisor (divisionModal st)))"
    by (auto simp: divisionAccepted_iff strictEqQuot_iff)
  with True show ?thesis by (simp add: handleDivisionSubmit_wrong_result)
qed

lemma handleDivisionSubmit_accepted:
  assumes "divisionAccepted st"
  shows "\<exists>r. parseInt (resultInput (divisionModal st)) = Some r \<and>
             handleDivisionSubmit st =
             st\<lparr>terms := applyDivision r (terms st), divisionModal := closedDivisionModal\<rparr>"
proof -
  from assms obtain r where r:
    "parseInt (divisorInput (divisionModal st)) = Some (divDivisor (divisionModal st))"
    "divDivisor (divisionModal st) \<noteq> 0"
    "parseInt (resultInput (divisionModal st)) = Some r"
    "(of_int r :: rat) =
         of_int (divDividend (divisionModal st)) / of_int (divDivisor (divisionModal st))"
    by (auto simp: divisionAccepted_iff)
  from handleDivisionSubmit_accept [OF r(1) r(3) r(2) r(4)] r(3) show ?thesis by blast
qed

lemma typedDivision_modal:
  assumes "canDivide st = Some \<lparr>divisor = k, dividend = m\<rparr>"
  shows "divisionModal (typedDivision dt rt st) =
         \<lparr>divIsOpen = True, divDivisor = k, divDividend = m, divisorInput = dt,
          resultInput = rt, divError = None\<rparr>"
    and "terms (typedDivision dt rt st) = terms st"
    and "score (typedDivision dt rt st) = score st"
  using assms
  by (simp_all add: typedDivision_def setResultInput_def setDivisorInput_def
      handleDivisionClick_def)

subsection \<open>Dragging\<close>

lemma handleDragEnd_no_candidate:
  assumes "\<not> gameWon st" "overlappingTerm ov newSide term (terms st) = None"
  shows "handleDragEnd ov newSide term st =
         (if newSide \<noteq> side term then st\<lparr>terms := crossTerm term newSide (terms st)\<rparr> else st)"
  using assms by (simp add: handleDragEnd_def Let_def)

lemma handleDragEnd_candidate:
  assumes "\<not> gameWon st" "overlappingTerm ov newSide term (terms st) = Some b"
  shows "handleDragEnd ov newSide term st =
         st\<lparr>modal :=
              \<lparr>isOpen = True,
               termA = Some (term\<lparr>coefficient :=
                                   (if newSide \<noteq> side term then - coefficient term
                                    else coefficient term),
                                 side := newSide\<rparr>),
               termB = Some b, inputValue = '''', error = None\<rparr>\<rparr>"
  using assms by (simp add: handleDragEnd_def Let_def)

lemma same_id_same_term:
  assumes "distinct (map termId ts)" "term \<in> set ts" "t \<in> set ts" "termId t = termId term"
  shows "t = term"
  using assms by (meson distinct_map inj_on_def)

lemma crossTerm_twice:
  assumes "distinct (map termId ts)" "term \<in> set ts"
  shows "crossTerm (term\<lparr>side := s, coefficient := - coefficient term\<rparr>) (side term)
           (crossTerm term s ts) = ts"
proof -
  have "(if termId t = termId term
         then t\<lparr>side := s, coefficient := coefficient t * - 1\<rparr>
              \<lparr>side := side term, coefficient := coefficient t * - 1 * - 1\<rparr>
         else t) = t" if "t \<in> set ts" for t
  proof (cases "termId t = termId term")
    case True
    with assms that have "t = term" by (rule same_id_same_term)
    then show ?thesis by simp
  next
    case False
    then show ?thesis by simp
  qed
  then have "map (\<lambda>t. if termId t = termId term
         then t\<lparr>side := s, coefficient := coefficient t * - 1\<rparr>
              \<lparr>side := side term, coefficient := coefficient t * - 1 * - 1\<rparr>
         else t) ts = ts"
    by (simp add: map_idI)
  moreover have "crossTerm (term\<lparr>side := s, coefficient := - coefficient term\<rparr>) (side term)
           (crossTerm term s ts) = map (\<lambda>t. if termId t = termId term
         then t\<lparr>side := s, coefficient := coefficient t * - 1\<rparr>
              \<lparr>side := side term, coefficient := coefficient t * - 1 * - 1\<rparr>
         else t) ts"
    by (simp add: crossTerm_def comp_def if_distrib cong: if_cong)
  ultimately show ?thesis by simp
qed

lemma crossTerm_member:
  "term \<in> set ts \<Longrightarrow>
   term\<lparr>side := s, coefficient := - coefficient term\<rparr> \<in> set (crossTerm term s ts)"
  by (force simp: crossTerm_def image_iff)

lemma crossTerm_zeroFree: "zeroFree ts \<Longrightarrow> zeroFree (crossTerm term s ts)"
  by (induction ts) (simp_all add: zeroFree_def crossTerm_def)

lemma handleDragEnd_zeroFree:
  "zeroFree (terms st) \<Longrightarrow> zeroFree (terms (handleDragEnd ov s term st))"
  by (simp add: handleDragEnd_def Let_def crossTerm_zeroFree split: option.splits)

lemma applyDivision_zeroFree:
  "zeroFree (applyDivision r ts) \<longleftrightarrow> r \<noteq> 0 \<or> list_all hasVariable ts"
  by (induction ts) (auto simp: zeroFree_def applyDivision_def)

subsection \<open>The status effect\<close>

text \<open>
  While the game is not won, the effect does the following. On the shape of the
  specification it wins or sets \<open>canDivide\<close>; off that shape it clears \<open>canDivide\<close> when
  the number of terms is not 2, and changes nothing when it is 2.
\<close>

lemma statusEffect_shape:
  assumes "\<not> gameWon st" "readyShape (terms st) v c"
  shows "statusEffect st =
         (if coefficient v = 1
          then st\<lparr>gameWon := True, score := score st + 10,
                  solvedCount := solvedCount st + 1, canDivide := None\<rparr>
          else st\<lparr>canDivide := Some \<lparr>divisor = coefficient v, dividend = coefficient c\<rparr>\<rparr>)"
proof -
  from assms(2) consider "terms st = [v, c]" | "terms st = [c, v]"
    by (auto simp: readyShape_def)
  then show ?thesis
  proof cases
    case 1
    with assms show ?thesis
      by (cases "side v"; cases "side c") (simp_all add: statusEffect_def readyShape_def Let_def)
  next
    case 2
    with assms show ?thesis
      by (cases "side v"; cases "side c") (simp_all add: statusEffect_def readyShape_def Let_def)
  qed
qed

lemma statusEffect_no_shape:
  assumes "\<not> gameWon st" "\<not> (\<exists>v c. readyShape (terms st) v c)"
  shows "statusEffect st = (if length (terms st) = 2 then st else st\<lparr>canDivide := None\<rparr>)"
proof (cases "length (terms st) = 2")
  case False
  with assms show ?thesis by (simp add: statusEffect_def)
next
  case True
  then obtain p q where pq: "terms st = [p, q]"
    by (auto simp: length_Suc_conv numeral_2_eq_2)
  with assms(2) have n: "\<not> readyShape [p, q] p q" "\<not> readyShape [p, q] q p" by auto
  with assms(1) pq True show ?thesis
    by (cases "side p"; cases "side q")
       (auto simp: statusEffect_def readyShape_def Let_def)
qed

subsection \<open>The example games\<close>

lemma game4_canDivide: "canDivide game4 = Some \<lparr>divisor = - 1, dividend = - 3\<rparr>"
  by code_simp

lemma game1Typed_modal:
  "termA (modal game1Typed) = Some t0Crossed" "termB (modal game1Typed) = Some t1"
  by code_simp+

lemma game1Wrong_modal:
  "termA (modal game1Wrong) = Some t0Crossed" "termB (modal game1Wrong) = Some t1"
  by code_simp+

lemma game1_modal:
  "termA (modal game1) = Some t0Crossed" "termB (modal game1) = Some t1"
  by code_simp+

section \<open>Zero terms\<close>

text \<open>
  Claim C1, as stated, fails. In the game that starts with \<open>2x + 4 = x + 4\<close> the right
  \<open>4\<close> is dropped on the left \<open>4\<close> and the sum \<open>0\<close> is submitted: the list of terms had
  no zero coefficient before, the submission is accepted, and the new constant term with
  coefficient 0 is in \<open>terms\<close> afterwards (lines 360 to 371 build it on purpose, with
  \<open>hasVariable\<close> false).
\<close>

theorem zero_term_after_merge:
  "zeroFree (terms zgame1Typed) \<and> mergeAccepted ''m0'' zgame1Typed \<and>
   \<not> zeroFree (terms (handleMergeSubmit ''m0'' zgame1Typed))"
  by code_simp

text \<open>
  Claim C1, amended. The level generator returns no term with coefficient 0, and a
  drag-end (a cross or the opening of a merge dialog) leaves a list of terms without
  zero coefficients as it is in that respect. A merge-submit leaves such a list without
  zero coefficients unless it is accepted with the sum 0, and then the new term with
  coefficient 0 stays in \<open>terms\<close>; a division-submit leaves it without zero coefficients
  unless it is accepted with the result 0 while a constant term exists, and then each
  constant term has coefficient 0.
\<close>

theorem zero_terms_by_transformation:
  "zeroFree (generateLevel d dr) \<and>
   (zeroFree (terms st) \<longrightarrow> zeroFree (terms (handleDragEnd ov newSide term st))) \<and>
   (zeroFree (terms st) \<and> termA (modal st) = Some a \<and> termB (modal st) = Some b \<longrightarrow>
      (zeroFree (terms (handleMergeSubmit newId st)) \<longleftrightarrow>
       \<not> (mergeAccepted newId st \<and> coefficient a + coefficient b = 0))) \<and>
   (zeroFree (terms st) \<longrightarrow>
      (zeroFree (terms (handleDivisionSubmit st)) \<longleftrightarrow>
       \<not> (divisionAccepted st \<and> parseInt (resultInput (divisionModal st)) = Some 0 \<and>
          \<not> list_all hasVariable (terms st))))"
proof -
  have 3: "zeroFree (terms (handleMergeSubmit newId st)) \<longleftrightarrow>
       \<not> (mergeAccepted newId st \<and> coefficient a + coefficient b = 0)"
    if z: "zeroFree (terms st)" and a: "termA (modal st) = Some a"
      and b: "termB (modal st) = Some b"
  proof (cases "mergeAccepted newId st")
    case True
    then have "parseInt (inputValue (modal st)) = Some (coefficient a + coefficient b)"
      by (simp add: mergeAccepted_iff [OF a b])
    from handleMergeSubmit_accept [OF a b this, of newId] z True show ?thesis
      by (simp add: zeroFree_def list_all_iff)
  next
    case False
    show ?thesis
    proof (cases "parseInt (inputValue (modal st))")
      case None
      from handleMergeSubmit_nan [OF a b None, of newId] z False show ?thesis by simp
    next
      case (Some u)
      with False have "u \<noteq> coefficient a + coefficient b"
        by (simp add: mergeAccepted_iff [OF a b])
      from handleMergeSubmit_wrong [OF a b Some this, of newId] z False show ?thesis by simp
    qed
  qed
  have 4: "zeroFree (terms (handleDivisionSubmit st)) \<longleftrightarrow>
       \<not> (divisionAccepted st \<and> parseInt (resultInput (divisionModal st)) = Some 0 \<and>
          \<not> list_all hasVariable (terms st))"
    if z: "zeroFree (terms st)"
  proof (cases "divisionAccepted st")
    case True
    from handleDivisionSubmit_accepted [OF True] obtain r where
      r: "parseInt (resultInput (divisionModal st)) = Some r"
      "handleDivisionSubmit st =
         st\<lparr>terms := applyDivision r (terms st), divisionModal := closedDivisionModal\<rparr>"
      by blast
    with True show ?thesis by (auto simp: applyDivision_zeroFree)
  next
    case False
    from handleDivisionSubmit_rejected [OF False] z False show ?thesis by simp
  qed
  from 3 4 generateLevel_zeroFree [of d dr] handleDragEnd_zeroFree [of st ov newSide "term"]
  show ?thesis by blast
qed

theorem zero_terms_by_transformation_witness:
  "zeroFree (terms zgame1Typed) \<and> termA (modal zgame1Typed) = Some t3Crossed \<and>
   termB (modal zgame1Typed) = Some t2 \<and> mergeAccepted ''m0'' zgame1Typed \<and>
   coefficient t3Crossed + coefficient t2 = 0 \<and>
   \<not> zeroFree (terms (handleMergeSubmit ''m0'' zgame1Typed)) \<and>
   zeroFree (terms (handleDragEnd (\<lambda>t. False) rhs t2 zgame1Typed)) \<and>
   zeroFree (terms (handleDivisionSubmit zgame1Typed))"
proof -
  have z: "zeroFree (terms zgame1Typed)"
    and a: "termA (modal zgame1Typed) = Some t3Crossed"
    and b: "termB (modal zgame1Typed) = Some t2"
    and c: "mergeAccepted ''m0'' zgame1Typed"
    and s: "coefficient t3Crossed + coefficient t2 = 0"
    and r: "\<not> divisionAccepted zgame1Typed"
    by code_simp+
  from zero_terms_by_transformation
         [of _ _ zgame1Typed "\<lambda>t. False" rhs t2 t3Crossed t2 "''m0''"]
    z a b c s r
  show ?thesis by blast
qed

section \<open>Status derivation\<close>

text \<open>
  Claim C2 at a state the code reaches. In \<open>game4\<close> the equation is \<open>-3 = -x\<close> and
  \<open>canDivide\<close> holds the divisor \<open>-1\<close> and the dividend \<open>-3\<close>. The constant is then
  dragged to the right side. Two terms remain, both on the right side, so by the claim
  the status is \<open>playing\<close> and the pending division-ready is cleared; the effect,
  whose only clearing branch is the one for a number of terms other than 2 (lines 219
  to 221), leaves \<open>canDivide\<close> as it was.
\<close>

theorem stale_division_ready:
  "terms game4 = [m0, m1] \<and> canDivide game4 = Some \<lparr>divisor = - 1, dividend = - 3\<rparr> \<and>
   game5 = statusEffect (handleDragEnd (\<lambda>t. False) rhs m1 game4) \<and>
   \<not> gameWon game5 \<and> terms game5 = [m0, m1Crossed] \<and>
   side m0 = rhs \<and> side m1Crossed = rhs \<and>
   canDivide game5 = Some \<lparr>divisor = - 1, dividend = - 3\<rparr>"
proof -
  have "terms game4 = [m0, m1]" "\<not> gameWon game5" "terms game5 = [m0, m1Crossed]"
    "side m0 = rhs" "side m1Crossed = rhs"
    "canDivide game5 = Some \<lparr>divisor = - 1, dividend = - 3\<rparr>"
    by code_simp+
  with game4_canDivide game5_def show ?thesis by blast
qed

section \<open>Merge submission\<close>

text \<open>
  Claim C3. A merge is pending on the terms \<open>a\<close> and \<open>b\<close> held by the dialog, and the
  proposed sum is what \<open>parseInt\<close> reads from the dialog's text field. The submission
  is accepted if and only if that reading is a number equal to
  \<open>coefficient a + coefficient b\<close>. On acceptance the terms with the identifier of \<open>a\<close> or
  of \<open>b\<close> are removed from \<open>terms\<close> and one new term is appended, on the side of \<open>b\<close>,
  with the sum as its coefficient, and with \<open>hasVariable\<close> false when the sum is 0 and
  that of \<open>a\<close> otherwise.
\<close>

theorem merge_submit:
  assumes "termA (modal st) = Some a" "termB (modal st) = Some b"
  shows "(mergeAccepted newId st \<longleftrightarrow>
            parseInt (inputValue (modal st)) = Some (coefficient a + coefficient b)) \<and>
         (mergeAccepted newId st \<longrightarrow>
            terms (handleMergeSubmit newId st) =
              filter (\<lambda>t. termId t \<noteq> termId a \<and> termId t \<noteq> termId b) (terms st) @
              [\<lparr>termId = newId, coefficient = coefficient a + coefficient b,
                hasVariable = (if coefficient a + coefficient b = 0 then False else hasVariable a),
                side = side b\<rparr>] \<and>
            list_all (\<lambda>t. termId t \<noteq> termId a \<and> termId t \<noteq> termId b)
              (butlast (terms (handleMergeSubmit newId st))))"
proof -
  note iff = mergeAccepted_iff [OF assms, of newId]
  have "terms (handleMergeSubmit newId st) =
          filter (\<lambda>t. termId t \<noteq> termId a \<and> termId t \<noteq> termId b) (terms st) @
          [\<lparr>termId = newId, coefficient = coefficient a + coefficient b,
            hasVariable = (if coefficient a + coefficient b = 0 then False else hasVariable a),
            side = side b\<rparr>] \<and>
        list_all (\<lambda>t. termId t \<noteq> termId a \<and> termId t \<noteq> termId b)
          (butlast (terms (handleMergeSubmit newId st)))"
    if "mergeAccepted newId st"
  proof -
    from that iff have "parseInt (inputValue (modal st)) = Some (coefficient a + coefficient b)"
      by simp
    from handleMergeSubmit_accept [OF assms this, of newId] show ?thesis
      by (simp add: list_all_iff)
  qed
  with iff show ?thesis by blast
qed

theorem merge_submit_witness:
  "termA (modal game1Typed) = Some t0Crossed \<and> termB (modal game1Typed) = Some t1 \<and>
   mergeAccepted ''m0'' game1Typed \<and>
   terms (handleMergeSubmit ''m0'' game1Typed) = [t2, t3, m0]"
proof -
  have p: "parseInt (inputValue (modal game1Typed)) =
           Some (coefficient t0Crossed + coefficient t1)"
    by code_simp
  have f: "filter (\<lambda>t. termId t \<noteq> termId t0Crossed \<and> termId t \<noteq> termId t1)
             (terms game1Typed) = [t2, t3]"
    by code_simp
  have n: "\<lparr>termId = ''m0'', coefficient = coefficient t0Crossed + coefficient t1,
            hasVariable = (if coefficient t0Crossed + coefficient t1 = 0 then False
                           else hasVariable t0Crossed),
            side = side t1\<rparr> = m0"
    by code_simp
  from merge_submit [OF game1Typed_modal, of "''m0''"] p f n game1Typed_modal
  show ?thesis by simp
qed

section \<open>Division submission\<close>

text \<open>
  Claim C4. The state is division-ready with divisor \<open>k\<close> and dividend \<open>m\<close>; the player
  presses Divide, types a divisor and a result, and presses Solve. The proposed numbers
  are what \<open>parseInt\<close> reads from the two text fields. The submission is accepted if
  and only if the proposed divisor is \<open>k\<close> and the proposed result equals the exact
  quotient \<open>m / k\<close> (for \<open>k = 0\<close> there is none). On acceptance each variable term gets
  the coefficient 1 and each constant term the proposed result. On rejection \<open>terms\<close> is
  unchanged, and the message names the divisor when the proposed divisor is not \<open>k\<close>,
  whatever the result, and the arithmetic otherwise.
\<close>

theorem division_submit:
  assumes "canDivide st = Some \<lparr>divisor = k, dividend = m\<rparr>"
  shows "(divisionAccepted (typedDivision dt rt st) \<longleftrightarrow>
            parseInt dt = Some k \<and> k \<noteq> 0 \<and>
            (\<exists>r. parseInt rt = Some r \<and> (of_int r :: rat) = of_int m / of_int k)) \<and>
         (divisionAccepted (typedDivision dt rt st) \<longrightarrow>
            (\<exists>r. parseInt rt = Some r \<and>
                 terms (handleDivisionSubmit (typedDivision dt rt st)) =
                 map (\<lambda>t. t\<lparr>coefficient := (if hasVariable t then 1 else r)\<rparr>) (terms st))) \<and>
         (\<not> divisionAccepted (typedDivision dt rt st) \<longrightarrow>
            terms (handleDivisionSubmit (typedDivision dt rt st)) = terms st \<and>
            divError (divisionModal (handleDivisionSubmit (typedDivision dt rt st))) =
              Some (if parseInt dt = Some k then ''Incorrect. Check the math. (-2 pts)''
                    else ''Incorrect. Check the divisor. (-2 pts)''))"
proof -
  note m = typedDivision_modal [OF assms, of dt rt]
  have 1: "divisionAccepted (typedDivision dt rt st) \<longleftrightarrow>
            parseInt dt = Some k \<and> k \<noteq> 0 \<and>
            (\<exists>r. parseInt rt = Some r \<and> (of_int r :: rat) = of_int m / of_int k)"
    by (simp add: divisionAccepted_iff m(1))
  have 2: "\<exists>r. parseInt rt = Some r \<and>
                 terms (handleDivisionSubmit (typedDivision dt rt st)) =
                 map (\<lambda>t. t\<lparr>coefficient := (if hasVariable t then 1 else r)\<rparr>) (terms st)"
    if "divisionAccepted (typedDivision dt rt st)"
    using handleDivisionSubmit_accepted [OF that]
    by (auto simp: m applyDivision_def)
  have 3: "terms (handleDivisionSubmit (typedDivision dt rt st)) = terms st \<and>
            divError (divisionModal (handleDivisionSubmit (typedDivision dt rt st))) =
              Some (if parseInt dt = Some k then ''Incorrect. Check the math. (-2 pts)''
                    else ''Incorrect. Check the divisor. (-2 pts)'')"
    if "\<not> divisionAccepted (typedDivision dt rt st)"
    using handleDivisionSubmit_rejected [OF that] by (simp add: m)
  from 1 2 3 show ?thesis by blast
qed

theorem division_submit_witness:
  "canDivide game4 = Some \<lparr>divisor = - 1, dividend = - 3\<rparr> \<and>
   divisionAccepted (typedDivision ''-1'' ''3'' game4) \<and>
   terms (handleDivisionSubmit (typedDivision ''-1'' ''3'' game4)) =
     [m0\<lparr>coefficient := 1\<rparr>, m1\<lparr>coefficient := 3\<rparr>] \<and>
   \<not> divisionAccepted (typedDivision ''1'' ''3'' game4) \<and>
   divError (divisionModal (handleDivisionSubmit (typedDivision ''1'' ''3'' game4))) =
     Some ''Incorrect. Check the divisor. (-2 pts)''"
proof -
  have p: "parseInt ''-1'' = Some (- 1)" "parseInt ''3'' = Some 3" "parseInt ''1'' = Some 1"
    by code_simp+
  have t: "terms game4 = [m0, m1]" by code_simp
  from division_submit [OF game4_canDivide, of "''-1''" "''3''"]
       division_submit [OF game4_canDivide, of "''1''" "''3''"] p t game4_canDivide
  show ?thesis by (simp add: m0_def m1_def)
qed

section \<open>The penalty of a rejected submission\<close>

text \<open>
  Claim C5, as stated, fails. In \<open>game1\<close> the merge dialog is open and its text field is
  empty, which \<open>parseInt\<close> reads as \<^verbatim>\<open>NaN\<close>. The submission is rejected with the
  message of line 355, and the score is not decreased by 2: the branch of lines 354 to
  357 returns before any change of the score.
\<close>

theorem nonnumeric_merge_no_penalty:
  "termA (modal game1) = Some t0Crossed \<and> termB (modal game1) = Some t1 \<and>
   parseInt (inputValue (modal game1)) = None \<and>
   \<not> mergeAccepted ''m0'' game1 \<and>
   error (modal (handleMergeSubmit ''m0'' game1)) = Some ''Please enter a valid number'' \<and>
   score (handleMergeSubmit ''m0'' game1) \<noteq> score game1 - 2"
  by code_simp

text \<open>
  Claim C5, amended. A merge submission rejected with a number as its proposed sum
  decreases the score by exactly 2 and leaves \<open>terms\<close> unchanged, also after the delayed
  closing of the dialog. A merge submission whose text is not a number is rejected,
  leaves \<open>terms\<close> unchanged and leaves the score unchanged. Every rejected division
  submission, in whatever state the division form is submitted, decreases the score by
  exactly 2 and leaves \<open>terms\<close> unchanged.
\<close>

theorem rejected_submission_penalty:
  "(termA (modal st) = Some a \<and> termB (modal st) = Some b \<and>
    \<not> mergeAccepted newId st \<and> parseInt (inputValue (modal st)) \<noteq> None \<longrightarrow>
      score (handleMergeSubmit newId st) = score st - 2 \<and>
      terms (handleMergeSubmit newId st) = terms st \<and>
      terms (mergeTimeout (handleMergeSubmit newId st)) = terms st) \<and>
   (termA (modal st) = Some a \<and> termB (modal st) = Some b \<and>
    parseInt (inputValue (modal st)) = None \<longrightarrow>
      \<not> mergeAccepted newId st \<and>
      score (handleMergeSubmit newId st) = score st \<and>
      terms (handleMergeSubmit newId st) = terms st) \<and>
   (\<not> divisionAccepted dst \<longrightarrow>
      score (handleDivisionSubmit dst) = score dst - 2 \<and>
      terms (handleDivisionSubmit dst) = terms dst)"
proof -
  have 1: "score (handleMergeSubmit newId st) = score st - 2 \<and>
           terms (handleMergeSubmit newId st) = terms st \<and>
           terms (mergeTimeout (handleMergeSubmit newId st)) = terms st"
    if a: "termA (modal st) = Some a" and b: "termB (modal st) = Some b"
      and r: "\<not> mergeAccepted newId st" and p: "parseInt (inputValue (modal st)) \<noteq> None"
  proof -
    from p obtain u where u: "parseInt (inputValue (modal st)) = Some u" by blast
    with r have "u \<noteq> coefficient a + coefficient b"
      by (simp add: mergeAccepted_iff [OF a b])
    from handleMergeSubmit_wrong [OF a b u this, of newId] show ?thesis
      by (simp add: mergeTimeout_def)
  qed
  have 2: "\<not> mergeAccepted newId st \<and> score (handleMergeSubmit newId st) = score st \<and>
           terms (handleMergeSubmit newId st) = terms st"
    if a: "termA (modal st) = Some a" and b: "termB (modal st) = Some b"
      and n: "parseInt (inputValue (modal st)) = None"
    using handleMergeSubmit_nan [OF a b n, of newId] n
    by (simp add: mergeAccepted_iff [OF a b])
  have 3: "score (handleDivisionSubmit dst) = score dst - 2 \<and>
           terms (handleDivisionSubmit dst) = terms dst"
    if "\<not> divisionAccepted dst"
    using handleDivisionSubmit_rejected [OF that] by simp
  from 1 2 3 show ?thesis by blast
qed

text \<open>
  The witness: a wrong sum in the open merge dialog of \<open>game1\<close>, an empty text in that
  dialog, and, in the division-ready state \<open>game4\<close> with the merge dialog closed, the
  division form opened by Divide and submitted with the wrong divisor \<open>1\<close>.
\<close>

theorem rejected_submission_penalty_witness:
  "termA (modal game1Wrong) = Some t0Crossed \<and> termB (modal game1Wrong) = Some t1 \<and>
   \<not> mergeAccepted ''m0'' game1Wrong \<and>
   parseInt (inputValue (modal game1Wrong)) \<noteq> None \<and>
   score (handleMergeSubmit ''m0'' game1Wrong) = score game1Wrong - 2 \<and>
   terms (handleMergeSubmit ''m0'' game1Wrong) = terms game1Wrong \<and>
   termA (modal game1) = Some t0Crossed \<and> termB (modal game1) = Some t1 \<and>
   parseInt (inputValue (modal game1)) = None \<and>
   score (handleMergeSubmit ''m0'' game1) = score game1 \<and>
   terms (handleMergeSubmit ''m0'' game1) = terms game1 \<and>
   modal (typedDivision ''1'' ''3'' game4) = closedModal \<and>
   divIsOpen (divisionModal (typedDivision ''1'' ''3'' game4)) \<and>
   \<not> divisionAccepted (typedDivision ''1'' ''3'' game4) \<and>
   score (handleDivisionSubmit (typedDivision ''1'' ''3'' game4)) = score game4 - 2 \<and>
   terms (handleDivisionSubmit (typedDivision ''1'' ''3'' game4)) = terms game4"
proof -
  have c: "\<not> mergeAccepted ''m0'' game1Wrong" by code_simp
  have d: "parseInt (inputValue (modal game1Wrong)) \<noteq> None" by code_simp
  have n: "parseInt (inputValue (modal game1)) = None" by code_simp
  have m: "modal (typedDivision ''1'' ''3'' game4) = closedModal" by code_simp
  have o: "divIsOpen (divisionModal (typedDivision ''1'' ''3'' game4))" by code_simp
  have e: "\<not> divisionAccepted (typedDivision ''1'' ''3'' game4)" by code_simp
  note k = typedDivision_modal(2,3) [OF game4_canDivide, of "''1''" "''3''"]
  from rejected_submission_penalty
         [of game1Wrong t0Crossed t1 "''m0''" "typedDivision ''1'' ''3'' game4"]
       game1Wrong_modal c d e
  have 1: "score (handleMergeSubmit ''m0'' game1Wrong) = score game1Wrong - 2 \<and>
           terms (handleMergeSubmit ''m0'' game1Wrong) = terms game1Wrong \<and>
           score (handleDivisionSubmit (typedDivision ''1'' ''3'' game4)) =
             score (typedDivision ''1'' ''3'' game4) - 2 \<and>
           terms (handleDivisionSubmit (typedDivision ''1'' ''3'' game4)) =
             terms (typedDivision ''1'' ''3'' game4)"
    by blast
  from rejected_submission_penalty [of game1 t0Crossed t1 "''m0''"] game1_modal n
  have 2: "score (handleMergeSubmit ''m0'' game1) = score game1 \<and>
           terms (handleMergeSubmit ''m0'' game1) = terms game1"
    by blast
  from 1 have 3: "score (handleDivisionSubmit (typedDivision ''1'' ''3'' game4)) =
             score game4 - 2 \<and>
           terms (handleDivisionSubmit (typedDivision ''1'' ''3'' game4)) = terms game4"
    by (simp add: k)
  from 1 2 3 game1Wrong_modal game1_modal c d n m o e show ?thesis by blast
qed

section \<open>Crossing\<close>

text \<open>
  Claim C8. A cross event is a drag-end while the game is not won that surfaces no merge
  candidate. When the destination is the side of the term, the whole state is
  unchanged. When it is the other side, each term with the identifier of the dragged
  term gets the destination as its side and its coefficient negated, the other terms
  are unchanged, and the dragged term of \<open>terms\<close> is replaced by its negation on the
  destination side. When the identifiers in \<open>terms\<close> are distinct, crossing the dragged
  term and then crossing it back gives the state from before the two crossings, so its
  coefficient and side have their first values.
\<close>

theorem cross_event:
  assumes "\<not> gameWon st" "overlappingTerm ov newSide term (terms st) = None"
  shows "(newSide = side term \<longrightarrow> handleDragEnd ov newSide term st = st) \<and>
         (newSide \<noteq> side term \<longrightarrow>
            handleDragEnd ov newSide term st =
              st\<lparr>terms := map (\<lambda>t. if termId t = termId term
                                    then t\<lparr>side := newSide, coefficient := - coefficient t\<rparr>
                                    else t) (terms st)\<rparr> \<and>
            (term \<in> set (terms st) \<longrightarrow>
               term\<lparr>side := newSide, coefficient := - coefficient term\<rparr>
                 \<in> set (terms (handleDragEnd ov newSide term st)))) \<and>
         (newSide \<noteq> side term \<and> term \<in> set (terms st) \<and> distinct (map termId (terms st)) \<and>
          overlappingTerm ov' (side term)
            (term\<lparr>side := newSide, coefficient := - coefficient term\<rparr>)
            (terms (handleDragEnd ov newSide term st)) = None \<longrightarrow>
            handleDragEnd ov' (side term)
              (term\<lparr>side := newSide, coefficient := - coefficient term\<rparr>)
              (handleDragEnd ov newSide term st) = st)"
proof -
  note h = handleDragEnd_no_candidate [OF assms]
  have 1: "handleDragEnd ov newSide term st = st" if "newSide = side term"
    using that h by simp
  have 2: "handleDragEnd ov newSide term st =
              st\<lparr>terms := map (\<lambda>t. if termId t = termId term
                                    then t\<lparr>side := newSide, coefficient := - coefficient t\<rparr>
                                    else t) (terms st)\<rparr> \<and>
            (term \<in> set (terms st) \<longrightarrow>
               term\<lparr>side := newSide, coefficient := - coefficient term\<rparr>
                 \<in> set (terms (handleDragEnd ov newSide term st)))"
    if "newSide \<noteq> side term"
    using that h crossTerm_member [of "term" "terms st" newSide]
    by (simp add: crossTerm_def)
  have 3: "handleDragEnd ov' (side term)
              (term\<lparr>side := newSide, coefficient := - coefficient term\<rparr>)
              (handleDragEnd ov newSide term st) = st"
    if c: "newSide \<noteq> side term" and m: "term \<in> set (terms st)"
      and d: "distinct (map termId (terms st))"
      and o: "overlappingTerm ov' (side term)
            (term\<lparr>side := newSide, coefficient := - coefficient term\<rparr>)
            (terms (handleDragEnd ov newSide term st)) = None"
  proof -
    let ?st1 = "handleDragEnd ov newSide term st"
    from c h have st1: "?st1 = st\<lparr>terms := crossTerm term newSide (terms st)\<rparr>" by simp
    then have g: "\<not> gameWon ?st1" using assms(1) by simp
    from handleDragEnd_no_candidate [OF g o] c
    have "handleDragEnd ov' (side term)
            (term\<lparr>side := newSide, coefficient := - coefficient term\<rparr>) ?st1 =
          ?st1\<lparr>terms := crossTerm (term\<lparr>side := newSide, coefficient := - coefficient term\<rparr>)
                            (side term) (terms ?st1)\<rparr>"
      by simp
    also have "\<dots> = st"
      by (simp add: st1 crossTerm_twice [OF d m])
    finally show ?thesis .
  qed
  from 1 2 3 show ?thesis by blast
qed

theorem cross_event_witness:
  "\<not> gameWon game4 \<and> overlappingTerm (\<lambda>t. False) rhs m1 (terms game4) = None \<and>
   rhs \<noteq> side m1 \<and> m1 \<in> set (terms game4) \<and> distinct (map termId (terms game4)) \<and>
   terms (handleDragEnd (\<lambda>t. False) rhs m1 game4) = [m0, m1Crossed] \<and>
   handleDragEnd (\<lambda>t. False) lhs m1Crossed (handleDragEnd (\<lambda>t. False) rhs m1 game4) = game4 \<and>
   handleDragEnd (\<lambda>t. False) lhs m1 game4 = game4"
proof -
  have g: "\<not> gameWon game4" by code_simp
  have o: "overlappingTerm (\<lambda>t. False) rhs m1 (terms game4) = None" by code_simp
  have o0: "overlappingTerm (\<lambda>t. False) lhs m1 (terms game4) = None" by code_simp
  have c: "rhs \<noteq> side m1" and s: "lhs = side m1" by (simp_all add: m1_def)
  have m: "m1 \<in> set (terms game4)" by code_simp
  have d: "distinct (map termId (terms game4))" by code_simp
  have e: "m1\<lparr>side := rhs, coefficient := - coefficient m1\<rparr> = m1Crossed"
    by (simp add: m1_def m1Crossed_def)
  have o': "overlappingTerm (\<lambda>t. False) (side m1)
              (m1\<lparr>side := rhs, coefficient := - coefficient m1\<rparr>)
              (terms (handleDragEnd (\<lambda>t. False) rhs m1 game4)) = None"
    by code_simp
  have t: "terms game4 = [m0, m1]" by code_simp
  note T = cross_event [OF g o, of "\<lambda>t. False"]
  from T c m d o'
  have twice: "handleDragEnd (\<lambda>t. False) (side m1)
                 (m1\<lparr>side := rhs, coefficient := - coefficient m1\<rparr>)
                 (handleDragEnd (\<lambda>t. False) rhs m1 game4) = game4"
    by blast
  from T c have "handleDragEnd (\<lambda>t. False) rhs m1 game4 =
      game4\<lparr>terms := map (\<lambda>t. if termId t = termId m1
                                then t\<lparr>side := rhs, coefficient := - coefficient t\<rparr>
                                else t) (terms game4)\<rparr>"
    by blast
  then have once: "terms (handleDragEnd (\<lambda>t. False) rhs m1 game4) = [m0, m1Crossed]"
    by (simp add: t m0_def m1_def m1Crossed_def)
  from cross_event [OF g o0, of "\<lambda>t. False"] s
  have same: "handleDragEnd (\<lambda>t. False) lhs m1 game4 = game4"
    by blast
  from g o c m d once twice [unfolded e, folded s] same show ?thesis by blast
qed

section \<open>What a submission is validated against\<close>

text \<open>
  Claim C9, as stated, fails. The game \<open>game0\<close> to \<open>game7\<close> is a sequence of inputs of
  the user interface from the first render. Its level has the answer 3. In \<open>game5\<close> the
  two terms \<open>-x\<close> and \<open>3\<close> are both on the right side, which is balanced at 3 and is not
  division-ready by the rule of the specification. The Divide button is still there,
  the dialog takes the divisor \<open>-1\<close> and the dividend \<open>-3\<close> that were stored three
  steps earlier, and the submission of \<open>-1\<close> and \<open>3\<close> is accepted: \<open>terms\<close> becomes \<open>x\<close>
  and \<open>3\<close> on the right side, which is not balanced at 3. After one more crossing the
  game is won with the equation \<open>-3 = x\<close>.
\<close>

theorem stale_division_committed:
  "answer 1 drawsA = 3 \<and>
   terms game5 = [m0, m1Crossed] \<and> balancedAt 3 (terms game5) \<and>
   filter (\<lambda>t. side t = lhs) (terms game5) = [] \<and>
   divisionAccepted (typedDivision ''-1'' ''3'' game5) \<and>
   terms game6 = [m0Divided, m1Crossed] \<and> \<not> balancedAt 3 (terms game6) \<and>
   gameWon game7 \<and> balancedAt (- 3) (terms game7)"
  by code_simp

text \<open>
  Claim C9, amended. A submitted merge or division value is validated against the values
  that the dialog has held since the interaction began: the two term copies \<open>termA\<close> and
  \<open>termB\<close> of the merge dialog, the divisor and the dividend of the division dialog.
  Two states with the same dialog get the same decision, the same dialog afterwards and
  the same change of the score, whatever their live \<open>terms\<close> and \<open>canDivide\<close> are. When
  a dialog opens, the values it stores come from the state of that moment: the Divide
  button copies the divisor and dividend of \<open>canDivide\<close>, and a drag-end that surfaces a
  merge candidate stores that candidate, a term of the live \<open>terms\<close>, as \<open>termB\<close> and the
  dragged term with its effective coefficient and new side as \<open>termA\<close>.
\<close>

theorem submit_validates_dialog:
  "(modal st1 = modal st2 \<longrightarrow>
      (mergeAccepted newId st1 \<longleftrightarrow> mergeAccepted newId st2) \<and>
      modal (handleMergeSubmit newId st1) = modal (handleMergeSubmit newId st2) \<and>
      score (handleMergeSubmit newId st1) - score st1 =
      score (handleMergeSubmit newId st2) - score st2) \<and>
   (divisionModal st1 = divisionModal st2 \<longrightarrow>
      (divisionAccepted st1 \<longleftrightarrow> divisionAccepted st2) \<and>
      divisionModal (handleDivisionSubmit st1) = divisionModal (handleDivisionSubmit st2) \<and>
      score (handleDivisionSubmit st1) - score st1 =
      score (handleDivisionSubmit st2) - score st2) \<and>
   (canDivide st = Some cd \<longrightarrow>
      divDivisor (divisionModal (handleDivisionClick st)) = divisor cd \<and>
      divDividend (divisionModal (handleDivisionClick st)) = dividend cd) \<and>
   (\<not> gameWon st' \<and> overlappingTerm ov newSide term (terms st') = Some b \<longrightarrow>
      b \<in> set (terms st') \<and>
      termB (modal (handleDragEnd ov newSide term st')) = Some b \<and>
      termA (modal (handleDragEnd ov newSide term st')) =
        Some (term\<lparr>coefficient := (if newSide \<noteq> side term then - coefficient term
                                    else coefficient term),
                   side := newSide\<rparr>))"
proof -
  have 1: "(mergeAccepted newId st1 \<longleftrightarrow> mergeAccepted newId st2) \<and>
      modal (handleMergeSubmit newId st1) = modal (handleMergeSubmit newId st2) \<and>
      score (handleMergeSubmit newId st1) - score st1 =
      score (handleMergeSubmit newId st2) - score st2"
    if "modal st1 = modal st2"
  proof -
    have "modal (handleMergeSubmit newId st1) = modal (handleMergeSubmit newId st2) \<and>
      score (handleMergeSubmit newId st1) - score st1 =
      score (handleMergeSubmit newId st2) - score st2"
      using that by (simp add: handleMergeSubmit_def Let_def split: option.splits)
    then show ?thesis by (simp add: mergeAccepted_def)
  qed
  have 2: "(divisionAccepted st1 \<longleftrightarrow> divisionAccepted st2) \<and>
      divisionModal (handleDivisionSubmit st1) = divisionModal (handleDivisionSubmit st2) \<and>
      score (handleDivisionSubmit st1) - score st1 =
      score (handleDivisionSubmit st2) - score st2"
    if "divisionModal st1 = divisionModal st2"
  proof -
    have "divisionModal (handleDivisionSubmit st1) = divisionModal (handleDivisionSubmit st2) \<and>
      score (handleDivisionSubmit st1) - score st1 =
      score (handleDivisionSubmit st2) - score st2"
      using that
      by (simp add: handleDivisionSubmit_def Let_def strictEqQuot_def split: option.splits)
    then show ?thesis by (simp add: divisionAccepted_def)
  qed
  have 3: "divDivisor (divisionModal (handleDivisionClick st)) = divisor cd \<and>
      divDividend (divisionModal (handleDivisionClick st)) = dividend cd"
    if "canDivide st = Some cd"
    using that by (simp add: handleDivisionClick_def)
  have 4: "b \<in> set (terms st') \<and>
      termB (modal (handleDragEnd ov newSide term st')) = Some b \<and>
      termA (modal (handleDragEnd ov newSide term st')) =
        Some (term\<lparr>coefficient := (if newSide \<noteq> side term then - coefficient term
                                    else coefficient term),
                   side := newSide\<rparr>)"
    if "\<not> gameWon st'" "overlappingTerm ov newSide term (terms st') = Some b"
  proof -
    from that(2) have "b \<in> set (terms st')"
      by (auto simp: overlappingTerm_def find_Some_iff)
    with handleDragEnd_candidate [OF that] show ?thesis by simp
  qed
  from 1 2 3 4 show ?thesis by blast
qed

theorem submit_validates_dialog_witness:
  "modal game1Typed = modal game1Stale \<and> divisionModal game1Typed = divisionModal game1Stale \<and>
   terms game1Typed \<noteq> terms game1Stale \<and> canDivide game1Typed \<noteq> canDivide game1Stale \<and>
   mergeAccepted ''m0'' game1Typed \<and> mergeAccepted ''m0'' game1Stale \<and>
   \<not> divisionAccepted game1Typed \<and> \<not> divisionAccepted game1Stale \<and>
   canDivide game4 = Some \<lparr>divisor = - 1, dividend = - 3\<rparr> \<and>
   divDivisor (divisionModal (handleDivisionClick game4)) = - 1 \<and>
   divDividend (divisionModal (handleDivisionClick game4)) = - 3 \<and>
   \<not> gameWon game0 \<and>
   overlappingTerm (\<lambda>t. termId t = ''t1'') rhs t0 (terms game0) = Some t1 \<and>
   t1 \<in> set (terms game0) \<and> termB (modal game1) = Some t1"
proof -
  have m: "modal game1Typed = modal game1Stale"
    and d: "divisionModal game1Typed = divisionModal game1Stale"
    and t: "terms game1Typed \<noteq> terms game1Stale"
    and c: "canDivide game1Typed \<noteq> canDivide game1Stale"
    by code_simp+
  have a: "mergeAccepted ''m0'' game1Typed" and r: "\<not> divisionAccepted game1Typed"
    by code_simp+
  have g: "\<not> gameWon game0"
    and o: "overlappingTerm (\<lambda>t. termId t = ''t1'') rhs t0 (terms game0) = Some t1"
    by code_simp+
  note T = submit_validates_dialog [of game1Typed game1Stale "''m0''" game4
      "\<lparr>divisor = - 1, dividend = - 3\<rparr>" game0 "\<lambda>t. termId t = ''t1''" rhs t0 t1,
      folded game1_def]
  from T m a have 1: "mergeAccepted ''m0'' game1Stale" by blast
  from T d r have 2: "\<not> divisionAccepted game1Stale" by blast
  from T game4_canDivide
  have 3: "divDivisor (divisionModal (handleDivisionClick game4)) = - 1 \<and>
           divDividend (divisionModal (handleDivisionClick game4)) = - 3"
    by simp
  from T g o have 4: "t1 \<in> set (terms game0) \<and> termB (modal game1) = Some t1" by blast
  from m d t c a r g o game4_canDivide 1 2 3 4 show ?thesis by blast
qed

section \<open>Opening and cancelling a merge\<close>

text \<open>
  Claim C10. When a drag-end surfaces a merge candidate \<open>b\<close>, only the merge dialog
  changes: \<open>terms\<close> and the score are as before, so the dragged term keeps its side and
  coefficient, and the negated coefficient of a term dragged across the centre line
  exists only in the copy \<open>termA\<close> of the dialog. Cancel then closes the dialog, and the
  state is the one from before the drag, whose dialog was closed.
\<close>

theorem merge_candidate_frame:
  assumes "\<not> gameWon st" "overlappingTerm ov newSide term (terms st) = Some b"
  shows "handleDragEnd ov newSide term st =
           st\<lparr>modal :=
                \<lparr>isOpen = True,
                 termA = Some (term\<lparr>coefficient :=
                                     (if newSide \<noteq> side term then - coefficient term
                                      else coefficient term),
                                   side := newSide\<rparr>),
                 termB = Some b, inputValue = '''', error = None\<rparr>\<rparr> \<and>
         terms (handleDragEnd ov newSide term st) = terms st \<and>
         score (handleDragEnd ov newSide term st) = score st \<and>
         cancelMerge (handleDragEnd ov newSide term st) = st\<lparr>modal := closedModal\<rparr> \<and>
         (modal st = closedModal \<longrightarrow> cancelMerge (handleDragEnd ov newSide term st) = st)"
proof -
  note h = handleDragEnd_candidate [OF assms]
  have "st\<lparr>modal := closedModal\<rparr> = st" if "modal st = closedModal"
    using that by simp
  with h show ?thesis by (simp add: cancelMerge_def)
qed

theorem merge_candidate_frame_witness:
  "\<not> gameWon game0 \<and>
   overlappingTerm (\<lambda>t. termId t = ''t1'') rhs t0 (terms game0) = Some t1 \<and>
   modal game0 = closedModal \<and>
   termA (modal game1) = Some t0Crossed \<and>
   terms game1 = [t0, t1, t2, t3] \<and> score game1 = score game0 \<and>
   cancelMerge game1 = game0"
proof -
  have g: "\<not> gameWon game0" by code_simp
  have o: "overlappingTerm (\<lambda>t. termId t = ''t1'') rhs t0 (terms game0) = Some t1"
    by code_simp
  have c: "modal game0 = closedModal" by code_simp
  have t: "terms game0 = [t0, t1, t2, t3]" by code_simp
  have e: "t0\<lparr>coefficient := (if rhs \<noteq> side t0 then - coefficient t0 else coefficient t0),
              side := rhs\<rparr> = t0Crossed"
    by (simp add: t0_def t0Crossed_def)
  note T = merge_candidate_frame [OF g o, unfolded e, folded game1_def]
  from T have eq: "game1 = game0\<lparr>modal := \<lparr>isOpen = True, termA = Some t0Crossed,
      termB = Some t1, inputValue = '''', error = None\<rparr>\<rparr>"
    by blast
  have a: "termA (modal game1) = Some t0Crossed"
    by (subst eq) simp
  from T c t have "terms game1 = [t0, t1, t2, t3] \<and> score game1 = score game0 \<and>
      cancelMerge game1 = game0"
    by simp
  with g o c a show ?thesis by blast
qed

end
